theory Spec2Isabelle
  imports Complex_Main
begin

section \<open>Python values shared by the services\<close>

text \<open>
  A Python \<open>str\<close> is a sequence of Unicode code points, so \<open>len\<close> counts code points
  and slicing cuts between them. The model keeps that: a string is a list of code points,
  and \<open>u\<close> turns an ASCII literal into one. Scores and times are Python floats; they are
  modelled as exact reals.
\<close>

type_synonym ustr = "nat list"

definition u :: "string \<Rightarrow> ustr" where
  "u s = map of_char s"

text \<open>
  \<open>str.strip()\<close> without argument removes the characters for which \<open>str.isspace\<close>
  holds from both ends.
\<close>

definition isspace :: "nat \<Rightarrow> bool" where
  "isspace c \<longleftrightarrow>
     (9 \<le> c \<and> c \<le> 13) \<or> (28 \<le> c \<and> c \<le> 32) \<or> c = 133 \<or> c = 160 \<or> c = 5760 \<or>
     (8192 \<le> c \<and> c \<le> 8202) \<or> c = 8232 \<or> c = 8233 \<or> c = 8239 \<or> c = 8287 \<or> c = 12288"

definition strip :: "ustr \<Rightarrow> ustr" where
  "strip s = rev (dropWhile isspace (rev (dropWhile isspace s)))"

text \<open>The substring test \<open>a in b\<close> on two strings.\<close>

fun startswith :: "ustr \<Rightarrow> ustr \<Rightarrow> bool" where
  "startswith s [] = True"
| "startswith [] (p # ps) = False"
| "startswith (c # cs) (p # ps) = (c = p \<and> startswith cs ps)"

fun str_in :: "ustr \<Rightarrow> ustr \<Rightarrow> bool" where
  "str_in a [] = (a = [])"
| "str_in a (c # cs) = (startswith (c # cs) a \<or> str_in a cs)"

text \<open>
  The slice \<open>xs[i:]\<close>: a negative start counts from the end, and a start outside the
  list is clamped, never an error.
\<close>

definition slice_from :: "'a list \<Rightarrow> int \<Rightarrow> 'a list" where
  "slice_from xs i =
     (let n = int (length xs);
          start = (if i < 0 then max (n + i) 0 else min i n)
      in drop (nat start) xs)"

text \<open>The slice \<open>xs[:k]\<close>, clamped in the same way.\<close>

definition slice_to :: "'a list \<Rightarrow> int \<Rightarrow> 'a list" where
  "slice_to xs k =
     (let n = int (length xs);
          stop = (if k < 0 then max (n + k) 0 else min k n)
      in take (nat stop) xs)"

text \<open>
  A Python value as \<open>json.loads\<close> and the agent framework produce it. \<open>PyNone\<close> is
  \<open>None\<close>, which is also what a function returns for "no result". \<open>PyObj\<close> is an
  object of any other class, given by its attribute \<open>raw\<close> (if it has one), its
  attribute \<open>output\<close> (if it has one) and its \<open>str()\<close>.
\<close>

datatype pyval =
    PyNone
  | PyBool bool
  | PyNum real
  | PyStr ustr
  | PyList "pyval list"
  | PyDict "(ustr \<times> pyval) list"
  | PyObj "pyval option" "pyval option" ustr

text \<open>Truthiness, as \<open>if x\<close> and \<open>not x\<close> test it.\<close>

fun truthy :: "pyval \<Rightarrow> bool" where
  "truthy PyNone = False"
| "truthy (PyBool b) = b"
| "truthy (PyNum r) = (r \<noteq> 0)"
| "truthy (PyStr s) = (s \<noteq> [])"
| "truthy (PyList xs) = (xs \<noteq> [])"
| "truthy (PyDict kvs) = (kvs \<noteq> [])"
| "truthy (PyObj r out s) = True"

text \<open>\<open>d.get(key, default)\<close> on a dictionary; \<open>d.get(key)\<close> has the default \<open>None\<close>.\<close>

definition dict_get :: "(ustr \<times> pyval) list \<Rightarrow> ustr \<Rightarrow> pyval \<Rightarrow> pyval" where
  "dict_get kvs key dflt = (case map_of kvs key of None \<Rightarrow> dflt | Some v \<Rightarrow> v)"

text \<open>
  Exceptions. \<open>Exception\<close> is an exception with its message: one the services raise
  themselves, or one of a collaborator. \<open>JSONDecodeError\<close> is the one \<open>json.loads\<close>
  raises on a text that is not JSON. The others are raised by Python, or by the validation
  of an \<open>AnswerResponse\<close>, on the value they carry.
\<close>

datatype exn =
    Exception ustr
  | JSONDecodeError
  | ItemAssignmentError pyval
  | FloatError pyval
  | ComparisonError pyval
  | AnswerValidationError pyval

datatype 'a outcome = Raises exn | Returns 'a

section \<open>Data contracts (\<open>app/models\<close>)\<close>

record source =
  doc :: ustr
  titre :: "ustr option"
  chapitre :: "ustr option"
  article :: "ustr option"
  contenu :: ustr
  pages :: "ustr option"
  source_file :: ustr
  relevance_score :: real

record question_request =
  question :: ustr
  context_limit :: int

text \<open>A \<open>datetime\<close> is kept abstract: a reading of the clock.\<close>

type_synonym datetime = nat

record answer_response =
  answer :: ustr
  sources :: "source list"
  confidence_score :: real
  processing_time :: real
  timestamp :: datetime

section \<open>Similarity search (\<open>vector_store.py\<close>)\<close>

text \<open>
  A raw distance as the index hands it over: absent (\<open>None\<close>), a number, or a value that
  \<open>float()\<close> rejects.
\<close>

datatype distance = NoDistance | Distance real | BadDistance

text \<open>
  The score of one candidate. The division \<open>1.0 / (1.0 + d)\<close> raises for \<open>d = -1\<close>;
  the surrounding \<open>except\<close> turns that, like a failed \<open>float()\<close>, into the score 0.
\<close>

fun similarity_score :: "distance \<Rightarrow> real" where
  "similarity_score NoDistance = 1"
| "similarity_score BadDistance = 0"
| "similarity_score (Distance d) =
     (if 0 \<le> d \<and> d \<le> 1 then max 0 (1 - d)
      else if 1 + d = 0 then 0
      else 1 / (1 + d))"

text \<open>
  The metadata of a candidate is a dictionary; a key may be missing, and \<open>get\<close> then
  gives the empty string.
\<close>

record metadata =
  m_doc :: "ustr option"
  m_titre :: "ustr option"
  m_chapitre :: "ustr option"
  m_article :: "ustr option"
  m_contenu :: "ustr option"
  m_pages :: "ustr option"
  m_source_file :: "ustr option"

definition get_default :: "ustr option \<Rightarrow> ustr" where
  "get_default v = (case v of None \<Rightarrow> [] | Some s \<Rightarrow> s)"

definition source_of_metadata :: "metadata \<Rightarrow> real \<Rightarrow> source" where
  "source_of_metadata m score =
     \<lparr> doc = get_default (m_doc m),
       titre = Some (get_default (m_titre m)),
       chapitre = Some (get_default (m_chapitre m)),
       article = Some (get_default (m_article m)),
       contenu = get_default (m_contenu m),
       pages = Some (get_default (m_pages m)),
       source_file = get_default (m_source_file m),
       relevance_score = score \<rparr>"

text \<open>
  What \<open>collection.query\<close> returns: a dictionary whose keys \<open>metadatas\<close>,
  \<open>documents\<close> and \<open>distances\<close> may each be missing, each holding one list per query.
\<close>

record query_result =
  r_metadatas :: "metadata list list option"
  r_documents :: "ustr list list option"
  r_distances :: "distance list list option"

text \<open>
  The loop over \<open>zip(metadatas_list, documents_list, distances_list)\<close>: a candidate is
  kept when its score reaches \<open>min_score\<close>, in the order of the index.
\<close>

fun collect_sources :: "(metadata \<times> ustr \<times> distance) list \<Rightarrow> real \<Rightarrow> source list" where
  "collect_sources [] min_score = []"
| "collect_sources ((m, document, d) # rest) min_score =
     (if similarity_score d \<ge> min_score
      then source_of_metadata m (similarity_score d) # collect_sources rest min_score
      else collect_sources rest min_score)"

text \<open>
  The body shared by both searches, from the result of the query on. Every exception is
  caught and gives the empty list: a missing \<open>documents\<close> key, and indexing the first
  element of an empty \<open>documents\<close> or \<open>distances\<close> list.
\<close>

definition sources_of_query :: "query_result outcome \<Rightarrow> real \<Rightarrow> source list" where
  "sources_of_query q min_score =
     (case q of
        Raises e \<Rightarrow> []
      | Returns results \<Rightarrow>
          (case r_metadatas results of
             None \<Rightarrow> []
           | Some [] \<Rightarrow> []
           | Some (metadatas_list # ms) \<Rightarrow>
               (case r_documents results of
                  None \<Rightarrow> []
                | Some [] \<Rightarrow> []
                | Some (documents_list # ds) \<Rightarrow>
                    (case r_distances results of
                       None \<Rightarrow>
                         collect_sources
                           (zip metadatas_list
                              (zip documents_list
                                 (replicate (length metadatas_list) NoDistance)))
                           min_score
                     | Some [] \<Rightarrow> []
                     | Some (distances_list # dists) \<Rightarrow>
                         collect_sources
                           (zip metadatas_list (zip documents_list distances_list))
                           min_score))))"

section \<open>Collaborators outside the repository\<close>

text \<open>What an attempt to rewrite the history file does.\<close>

datatype write_outcome = Written | OpenFailed | DumpFailed

text \<open>
  Everything a request reads from outside the repository's code: the Python library
  (\<open>str.lower\<close>; \<open>json.loads\<close>, which raises \<open>JSONDecodeError\<close> on a text that is
  not JSON and may raise another exception, such as a \<open>RecursionError\<close> on a deeply
  nested text or a \<open>ValueError\<close> on an overlong integer; \<open>float\<close> on a string,
  \<open>None\<close> for a \<open>ValueError\<close>; \<open>str\<close> of a built-in value; the text of a built-in
  exception), the clock (\<open>now\<close> is \<open>datetime.now()\<close> and \<open>elapsed\<close> is
  \<open>time.time() - start_time\<close> when the response is built), the identifier generator, the
  file system, the two settings of \<open>config.py\<close> the crew reads, the vector index and the
  language models. The index is asked with the query text, the number of results and
  the optional \<open>source_file\<close> filter (embedding the query is part of that call); the
  crew with the question and the datasets of the active agents; the local model with
  the question and the sources of the prompt, and what it returns is the text extracted
  from the client's response (\<open>None\<close> when there is none); the validation model with the
  question, the answer and the sources, and what it returns is the stripped text of its
  response.
\<close>

record env =
  py_lower :: "ustr \<Rightarrow> ustr"
  json_loads :: "ustr \<Rightarrow> pyval outcome"
  float_of_str :: "ustr \<Rightarrow> real option"
  py_str :: "pyval \<Rightarrow> ustr"
  exn_text :: "exn \<Rightarrow> ustr"
  now :: datetime
  elapsed :: real
  uuid4 :: ustr
  file_write :: write_outcome
  CREW_AGENT_TOP_K :: int
  CREW_MIN_SCORE :: real
  collection_query :: "ustr \<Rightarrow> int \<Rightarrow> ustr option \<Rightarrow> query_result outcome"
  crew_kickoff :: "ustr \<Rightarrow> ustr list \<Rightarrow> pyval outcome"
  ollama_generate :: "ustr \<Rightarrow> source list \<Rightarrow> ustr option outcome"
  gemini_generate :: "ustr \<Rightarrow> pyval \<Rightarrow> source list \<Rightarrow> ustr outcome"

definition search_similar_documents :: "env \<Rightarrow> ustr \<Rightarrow> int \<Rightarrow> real \<Rightarrow> source list" where
  "search_similar_documents e query n_results min_score =
     sources_of_query (collection_query e query n_results None) min_score"

definition search_documents_for_dataset ::
  "env \<Rightarrow> ustr \<Rightarrow> ustr \<Rightarrow> int \<Rightarrow> real \<Rightarrow> source list" where
  "search_documents_for_dataset e query src_file n_results min_score =
     sources_of_query (collection_query e query n_results (Some src_file)) min_score"

section \<open>Answer generation (\<open>llm_service.py\<close>)\<close>

text \<open>The two model handles of \<open>LLMService\<close>: set or \<open>None\<close>.\<close>

record llm_service =
  ollama_client :: bool
  gemini_model :: bool

definition legal_keywords :: "ustr list" where
  "legal_keywords = [u ''article'', u ''loi'', u ''d'' @ [233] @ u ''cret'', u ''code'']"

text \<open>
  \<open>_calculate_confidence_score\<close>. A source's \<open>doc\<close> is a string, so \<open>source.doc or ""\<close>
  is \<open>doc\<close> itself. The sums are exact here; in double precision the four terms add up
  to the double just below 1.
\<close>

definition calculate_confidence_score :: "env \<Rightarrow> ustr \<Rightarrow> source list \<Rightarrow> real" where
  "calculate_confidence_score e ans srcs =
     (if ans = [] \<or> srcs = [] then 0
      else
        let score = 0.5;
            score = (if list_ex (\<lambda>keyword. str_in keyword (py_lower e ans)) legal_keywords
                     then score + 0.2 else score);
            score = (if list_ex (\<lambda>s. str_in (py_lower e (doc s)) (py_lower e ans)) srcs
                     then score + 0.2 else score);
            score = (if 50 \<le> length ans \<and> length ans \<le> 2000
                     then score + 0.1 else score)
        in min score 1)"

text \<open>
  \<open>generate_answer_with_ollama\<close>: the answer text and its confidence score; every
  exception of the call is raised again.
\<close>

definition generate_answer_with_ollama ::
  "env \<Rightarrow> llm_service \<Rightarrow> ustr \<Rightarrow> source list \<Rightarrow> int \<Rightarrow> (ustr \<times> real) outcome" where
  "generate_answer_with_ollama e l question_text srcs limit =
     (if \<not> ollama_client l
      then Raises (Exception (u ''Ollama n'' @ [39] @ u ''est pas initialis'' @ [233]))
      else
        (case ollama_generate e question_text (slice_to srcs limit) of
           Raises x \<Rightarrow> Raises x
         | Returns answer_text \<Rightarrow>
             (let ans = strip (case answer_text of None \<Rightarrow> [] | Some t \<Rightarrow> t)
              in Returns (ans, calculate_confidence_score e ans srcs))))"

text \<open>
  \<open>validate_answer_with_gemini\<close>: the pair of \<open>validated_answer\<close> and
  \<open>validation_score\<close>. It never raises: a failed call keeps the answer with the score
  0.5, and a response that is not a JSON object, or on which \<open>json.loads\<close> raises
  anything, becomes the answer with the score 0.7.
\<close>

definition validate_answer_with_gemini ::
  "env \<Rightarrow> llm_service \<Rightarrow> ustr \<Rightarrow> pyval \<Rightarrow> source list \<Rightarrow> pyval \<times> pyval" where
  "validate_answer_with_gemini e l question_text ans srcs =
     (if \<not> gemini_model l then (ans, PyNum 0.5)
      else
        (case gemini_generate e question_text ans srcs of
           Raises x \<Rightarrow> (ans, PyNum 0.5)
         | Returns validation_result \<Rightarrow>
             (case json_loads e validation_result of
                Returns (PyDict kvs) \<Rightarrow>
                  (dict_get kvs (u ''improved_answer'') ans,
                   dict_get kvs (u ''confidence_score'') (PyNum 0.5))
              | _ \<Rightarrow> (PyStr validation_result, PyNum 0.7))))"

definition is_gemini_available :: "llm_service \<Rightarrow> bool" where
  "is_gemini_available l = gemini_model l"

section \<open>Multi-agent coordinator (\<open>crew_agent_service.py\<close>)\<close>

text \<open>
  The service keeps the dataset names, one agent per dataset (kept by its dataset name),
  the supervisor agent (set or \<open>None\<close>) and the sources of its last retrieval.
\<close>

record crew_service =
  is_available :: bool
  dataset_files :: "ustr list"
  dataset_agents :: "ustr list"
  supervisor_agent :: bool
  latest_sources :: "source list"

fun attr_raw :: "pyval \<Rightarrow> pyval option" where
  "attr_raw (PyObj r out s) = r"
| "attr_raw v = None"

fun attr_output :: "pyval \<Rightarrow> pyval option" where
  "attr_output (PyObj r out s) = out"
| "attr_output v = None"

definition to_str :: "env \<Rightarrow> pyval \<Rightarrow> ustr" where
  "to_str e v = (case v of PyStr s \<Rightarrow> s | PyObj r out s \<Rightarrow> s | _ \<Rightarrow> py_str e v)"

text \<open>
  \<open>re.search(r"\{.*\}", s, re.DOTALL)\<close>: the match starts at the first opening brace
  and, the star being greedy and the dot matching every character, ends at the last
  closing brace after it; there is no match without such a pair.
\<close>

definition re_search_braces :: "ustr \<Rightarrow> ustr option" where
  "re_search_braces s =
     (case dropWhile (\<lambda>c. c \<noteq> 123) s of
        [] \<Rightarrow> None
      | rest \<Rightarrow>
          (let m = rev (dropWhile (\<lambda>c. c \<noteq> 125) (rev rest))
           in if m = [] then None else Some m))"

text \<open>
  The text \<open>_parse_supervisor_output\<close> parses: the attribute \<open>raw\<close> is taken when
  there is one, then the attribute \<open>output\<close> of what is left, then \<open>str()\<close> of
  anything that is not a string.
\<close>

definition output_text :: "env \<Rightarrow> pyval \<Rightarrow> ustr" where
  "output_text e output =
     (let output1 = (case attr_raw output of Some r \<Rightarrow> r | None \<Rightarrow> output);
          output2 = (case attr_output output1 of Some out \<Rightarrow> out | None \<Rightarrow> output1)
      in to_str e output2)"

fun isinstance_dict :: "pyval \<Rightarrow> bool" where
  "isinstance_dict (PyDict kvs) = True"
| "isinstance_dict v = False"

text \<open>
  \<open>_parse_supervisor_output\<close>; the result \<open>PyNone\<close> is "no result". Only a
  \<open>JSONDecodeError\<close> is caught: any other exception of \<open>json.loads\<close> leaves the
  function.
\<close>

definition parse_supervisor_output :: "env \<Rightarrow> pyval \<Rightarrow> pyval outcome" where
  "parse_supervisor_output e output =
     (if isinstance_dict output then Returns output
      else
        (let output_str = output_text e output
         in case json_loads e output_str of
              Returns v \<Rightarrow> Returns v
            | Raises x \<Rightarrow>
                if x \<noteq> JSONDecodeError then Raises x
                else
                  (case re_search_braces output_str of
                     None \<Rightarrow> Returns PyNone
                   | Some m \<Rightarrow>
                       (case json_loads e m of
                          Returns v \<Rightarrow> Returns v
                        | Raises y \<Rightarrow>
                            if y \<noteq> JSONDecodeError then Raises y
                            else Returns PyNone))))"

text \<open>
  The loop of \<open>_prepare_dataset_contexts\<close>: the contexts, one per dataset with a
  non-empty retrieval, and the sources of all of them. A context is kept as the sources
  it is formatted from: its text starts with a header line, so it is never empty.
\<close>

fun gather_contexts ::
  "env \<Rightarrow> ustr \<Rightarrow> int \<Rightarrow> ustr list \<Rightarrow> (ustr \<times> source list) list \<times> source list" where
  "gather_contexts e question_text per_dataset [] = ([], [])"
| "gather_contexts e question_text per_dataset (dataset # rest) =
     (let srcs = search_documents_for_dataset e question_text dataset per_dataset
                   (CREW_MIN_SCORE e);
          (contexts, aggregated) = gather_contexts e question_text per_dataset rest
      in if srcs = [] then (contexts, aggregated)
         else ((dataset, srcs) # contexts, srcs @ aggregated))"

definition prepare_dataset_contexts ::
  "env \<Rightarrow> crew_service \<Rightarrow> ustr \<Rightarrow> int \<Rightarrow> (ustr \<times> source list) list \<times> crew_service" where
  "prepare_dataset_contexts e svc question_text limit =
     (let per_dataset = max limit (CREW_AGENT_TOP_K e);
          (contexts, aggregated) =
             gather_contexts e question_text per_dataset (dataset_files svc)
      in (contexts, svc\<lparr>latest_sources := aggregated\<rparr>))"

text \<open>
  What \<open>run\<close> returns on success: the parsed dictionary, with the retrieved sources
  stored under its key \<open>sources\<close>.
\<close>

record crew_result =
  parsed_fields :: "(ustr \<times> pyval) list"
  result_sources :: "source list"

text \<open>
  \<open>run\<close>, with the service as it leaves it. Building the tasks and the crew is taken
  not to fail; a failure of the crew itself is caught. The parse is called outside that
  \<open>try\<close>, so its exception leaves \<open>run\<close>, and storing the sources into a parsed
  value that is not a dictionary raises.
\<close>

definition run ::
  "env \<Rightarrow> crew_service \<Rightarrow> ustr \<Rightarrow> int \<Rightarrow> crew_result option outcome \<times> crew_service" where
  "run e svc question_text limit =
     (if \<not> is_available svc \<or> dataset_agents svc = [] \<or> \<not> supervisor_agent svc
      then (Returns None, svc)
      else
        (let (dataset_contexts, svc1) = prepare_dataset_contexts e svc question_text limit;
             active_agents =
               filter (\<lambda>dataset. map_of dataset_contexts dataset \<noteq> None) (dataset_agents svc)
         in if active_agents = [] then (Returns None, svc1)
            else
              (case crew_kickoff e question_text active_agents of
                 Raises x \<Rightarrow> (Returns None, svc1)
               | Returns final_output \<Rightarrow>
                   (case parse_supervisor_output e final_output of
                      Raises x \<Rightarrow> (Raises x, svc1)
                    | Returns parsed \<Rightarrow>
                        if \<not> truthy parsed then (Returns None, svc1)
                        else
                          (case parsed of
                             PyDict kvs \<Rightarrow>
                               (Returns (Some \<lparr> parsed_fields = kvs,
                                  result_sources =
                                    slice_to (latest_sources svc1) (max limit 3) \<rparr>), svc1)
                           | _ \<Rightarrow> (Raises (ItemAssignmentError parsed), svc1))))))"

section \<open>Orchestration, cache and history (\<open>rag_service.py\<close>)\<close>

text \<open>
  A history entry is the dictionary \<open>_save_to_history\<close> builds; each of its sources is
  a dictionary too, without the key \<open>pages\<close>. The timestamp is stored in ISO format,
  which is kept as the clock reading it denotes.
\<close>

record stored_source =
  h_doc :: ustr
  h_titre :: "ustr option"
  h_chapitre :: "ustr option"
  h_article :: "ustr option"
  h_contenu :: ustr
  h_source_file :: ustr
  h_relevance_score :: real

record history_entry =
  e_id :: ustr
  e_question :: ustr
  e_answer :: ustr
  e_sources :: "stored_source list"
  e_confidence_score :: real
  e_timestamp :: datetime

text \<open>
  The file \<open>conversation_history.json\<close>: missing, holding a history, or not readable
  as JSON.
\<close>

datatype file_state = Missing | Stored "history_entry list" | Unreadable

text \<open>The state of a \<open>RAGService\<close>, with the history file it reads and writes.\<close>

record rag_service =
  conversation_history :: "history_entry list"
  is_initialized :: bool
  multi_agent_service :: "crew_service option"
  llm :: llm_service
  history_file :: file_state

definition greetings :: "ustr list" where
  "greetings =
     [u ''bonjour'', u ''bonsoir'', u ''salut'', u ''hello'', u ''hi'', u ''hey'',
      u ''coucou'', u ''bonne journ'' @ [233] @ u ''e'',
      u ''bonne soir'' @ [233] @ u ''e'', u ''bon matin'', u ''good morning'',
      u ''good evening'', u ''good afternoon'', u ''salam'', u ''salam alaykoum'',
      u ''merci'', u ''thank you'', u ''thanks'', [1588, 1603, 1585, 1575],
      u ''au revoir'', u ''bye'', [224] @ u '' bient'' @ [244] @ u ''t'', u ''goodbye'']"

definition greeting_text :: ustr where
  "greeting_text =
     u ''Bonjour ! Je suis votre assistant juridique marocain. Je peux vous aider '' @
     [224] @ u '' r'' @ [233] @ u ''pondre '' @ [224] @
     u '' vos questions sur le droit marocain. N'' @ [39] @ u ''h'' @ [233] @
     u ''sitez pas '' @ [224] @ u '' me poser une question juridique !''"

definition thanks_text :: ustr where
  "thanks_text =
     u ''De rien ! N'' @ [39] @ u ''h'' @ [233] @ u ''sitez pas si vous avez d'' @ [39] @
     u ''autres questions juridiques.''"

definition closing_text :: ustr where
  "closing_text =
     u ''Au revoir ! N'' @ [39] @ u ''h'' @ [233] @ u ''sitez pas '' @ [224] @
     u '' revenir si vous avez des questions juridiques.''"

definition no_information_text :: ustr where
  "no_information_text =
     u ''Je n'' @ [39] @ u ''ai pas trouv'' @ [233] @ u '' d'' @ [39] @
     u ''informations pertinentes dans les documents juridiques disponibles pour r'' @
     [233] @ u ''pondre '' @ [224] @ u '' votre question.''"

text \<open>The choice of the canned text inside \<open>_handle_greetings\<close>.\<close>

definition response_text :: "ustr \<Rightarrow> ustr" where
  "response_text normalized =
     (if list_ex (\<lambda>word. str_in word normalized) [u ''merci'', u ''thank'', [1588, 1603, 1585, 1575]]
      then thanks_text
      else if list_ex (\<lambda>word. str_in word normalized)
                [u ''au revoir'', u ''bye'', u ''goodbye'', [224] @ u '' bient'' @ [244] @ u ''t'']
      then closing_text
      else greeting_text)"

text \<open>\<open>_handle_greetings\<close>: the canned answer of a greeting, \<open>None\<close> for any other text.\<close>

definition handle_greetings :: "env \<Rightarrow> ustr \<Rightarrow> answer_response option" where
  "handle_greetings e question_text =
     (let normalized = py_lower e (strip question_text)
      in if normalized \<in> set greetings
         then
           (case find (\<lambda>greeting. greeting = normalized) greetings of
              Some greeting \<Rightarrow>
                Some \<lparr> answer = response_text normalized,
                       sources = [],
                       confidence_score = 1,
                       processing_time = 0,
                       timestamp = now e \<rparr>
            | None \<Rightarrow> None)
         else None)"

definition source_of_stored :: "stored_source \<Rightarrow> source" where
  "source_of_stored s =
     \<lparr> doc = h_doc s,
       titre = h_titre s,
       chapitre = h_chapitre s,
       article = h_article s,
       contenu = h_contenu s,
       pages = None,
       source_file = h_source_file s,
       relevance_score = h_relevance_score s \<rparr>"

definition cached_response :: "env \<Rightarrow> history_entry \<Rightarrow> answer_response" where
  "cached_response e entry =
     \<lparr> answer = e_answer entry,
       sources = map source_of_stored (e_sources entry),
       confidence_score = e_confidence_score entry,
       processing_time = 0,
       timestamp = now e \<rparr>"

text \<open>
  \<open>_check_history_cache\<close>: the first entry of the reversed history whose question,
  stripped and lower-cased, is the stripped and lower-cased query.
\<close>

definition check_history_cache :: "env \<Rightarrow> rag_service \<Rightarrow> ustr \<Rightarrow> answer_response option" where
  "check_history_cache e s question_text =
     (let normalized_question = py_lower e (strip question_text)
      in case find (\<lambda>entry. py_lower e (strip (e_question entry)) = normalized_question)
                (rev (conversation_history s)) of
           Some entry \<Rightarrow> Some (cached_response e entry)
         | None \<Rightarrow> None)"

definition stored_of_source :: "source \<Rightarrow> stored_source" where
  "stored_of_source s =
     \<lparr> h_doc = doc s,
       h_titre = titre s,
       h_chapitre = chapitre s,
       h_article = article s,
       h_contenu = (if length (contenu s) > 200
                    then slice_to (contenu s) 200 @ u ''...''
                    else contenu s),
       h_source_file = source_file s,
       h_relevance_score = relevance_score s \<rparr>"

definition history_entry_of :: "env \<Rightarrow> ustr \<Rightarrow> answer_response \<Rightarrow> history_entry" where
  "history_entry_of e question_text response =
     \<lparr> e_id = uuid4 e,
       e_question = question_text,
       e_answer = answer response,
       e_sources = map stored_of_source (sources response),
       e_confidence_score = confidence_score response,
       e_timestamp = timestamp response \<rparr>"

text \<open>
  \<open>_persist_history_to_file\<close>: a failure is logged, never raised. A write that fails
  on opening leaves the file as it was; one that fails while dumping leaves it unreadable.
\<close>

definition persist_history_to_file :: "env \<Rightarrow> rag_service \<Rightarrow> rag_service" where
  "persist_history_to_file e s =
     (case file_write e of
        Written \<Rightarrow> s\<lparr>history_file := Stored (conversation_history s)\<rparr>
      | OpenFailed \<Rightarrow> s
      | DumpFailed \<Rightarrow> s\<lparr>history_file := Unreadable\<rparr>)"

definition save_to_history :: "env \<Rightarrow> ustr \<Rightarrow> answer_response \<Rightarrow> rag_service \<Rightarrow> rag_service" where
  "save_to_history e question_text response s =
     (let appended = conversation_history s @ [history_entry_of e question_text response];
          kept = (if length appended > 100 then slice_from appended (- 100) else appended)
      in persist_history_to_file e (s\<lparr>conversation_history := kept\<rparr>))"

definition load_history_from_file :: "rag_service \<Rightarrow> rag_service" where
  "load_history_from_file s =
     (case history_file s of
        Missing \<Rightarrow> s
      | Stored h \<Rightarrow> s\<lparr>conversation_history := h\<rparr>
      | Unreadable \<Rightarrow> s\<lparr>conversation_history := []\<rparr>)"

text \<open>
  \<open>RAGService.__init__\<close>, on the model handles the new \<open>LLMService\<close> gets and the
  history file it finds.
\<close>

definition new_rag_service :: "llm_service \<Rightarrow> file_state \<Rightarrow> rag_service" where
  "new_rag_service l f =
     load_history_from_file
       \<lparr> conversation_history = [],
         is_initialized = False,
         multi_agent_service = None,
         llm = l,
         history_file = f \<rparr>"

definition get_conversation_history :: "rag_service \<Rightarrow> int \<Rightarrow> history_entry list" where
  "get_conversation_history s limit = slice_from (conversation_history s) (- limit)"

definition clear_history :: "rag_service \<Rightarrow> bool \<times> rag_service" where
  "clear_history s = (True, s\<lparr>conversation_history := []\<rparr>)"

text \<open>\<open>float(v)\<close> and \<open>max(c, v)\<close> for a float \<open>c\<close>, on a parsed value \<open>v\<close>.\<close>

definition py_float :: "env \<Rightarrow> pyval \<Rightarrow> real outcome" where
  "py_float e v =
     (case v of
        PyNum r \<Rightarrow> Returns r
      | PyBool b \<Rightarrow> Returns (if b then 1 else 0)
      | PyStr t \<Rightarrow> (case float_of_str e t of Some r \<Rightarrow> Returns r | None \<Rightarrow> Raises (FloatError v))
      | _ \<Rightarrow> Raises (FloatError v))"

definition py_max :: "real \<Rightarrow> pyval \<Rightarrow> real outcome" where
  "py_max c v =
     (case v of
        PyNum r \<Rightarrow> Returns (if r > c then r else c)
      | PyBool b \<Rightarrow> Returns (if (if b then 1 else 0) > c then (if b then 1 else 0) else c)
      | _ \<Rightarrow> Raises (ComparisonError v))"

definition str_exn :: "env \<Rightarrow> exn \<Rightarrow> ustr" where
  "str_exn e x = (case x of Exception msg \<Rightarrow> msg | _ \<Rightarrow> exn_text e x)"

definition no_information_response :: "env \<Rightarrow> answer_response" where
  "no_information_response e =
     \<lparr> answer = no_information_text,
       sources = [],
       confidence_score = 0,
       processing_time = elapsed e,
       timestamp = now e \<rparr>"

definition error_response :: "env \<Rightarrow> exn \<Rightarrow> answer_response" where
  "error_response e x =
     \<lparr> answer = u ''Une erreur s'' @
                [39] @ u ''est produite lors du traitement de votre question: '' @
                str_exn e x,
       sources = [],
       confidence_score = 0,
       processing_time = elapsed e,
       timestamp = now e \<rparr>"

text \<open>
  The steps of \<open>ask_question\<close> after the cache check. First the crew, when there is one
  and it is available; its service keeps the sources it retrieved.
\<close>

definition run_multi_agent ::
  "env \<Rightarrow> rag_service \<Rightarrow> question_request \<Rightarrow> crew_result option outcome \<times> rag_service" where
  "run_multi_agent e s request =
     (case multi_agent_service s of
        None \<Rightarrow> (Returns None, s)
      | Some svc \<Rightarrow>
          if is_available svc
          then (let (multi_agent_result, svc1) =
                      run e svc (question request) (context_limit request)
                in (multi_agent_result, s\<lparr>multi_agent_service := Some svc1\<rparr>))
          else (Returns None, s))"

text \<open>
  Then the answer text, the sources and the confidence before validation, or the early
  return when the classical retrieval finds nothing.
\<close>

datatype draft = NoInformation | Draft pyval "source list" real

definition classical_answer :: "env \<Rightarrow> rag_service \<Rightarrow> question_request \<Rightarrow> draft outcome" where
  "classical_answer e s request =
     (let srcs = search_similar_documents e (question request)
                   (max 5 (context_limit request)) 0
      in if srcs = [] then Returns NoInformation
         else
           (case generate_answer_with_ollama e (llm s) (question request) srcs
                   (context_limit request) of
              Raises x \<Rightarrow> Raises x
            | Returns (answer_text, confidence) \<Rightarrow>
                Returns (Draft (PyStr answer_text) srcs confidence)))"

definition draft_answer ::
  "env \<Rightarrow> rag_service \<Rightarrow> question_request \<Rightarrow> crew_result option \<Rightarrow> draft outcome" where
  "draft_answer e s request multi_agent_result =
     (case multi_agent_result of
        None \<Rightarrow> classical_answer e s request
      | Some r \<Rightarrow>
          if truthy (dict_get (parsed_fields r) (u ''answer'') PyNone)
          then
            (let srcs = (if result_sources r = []
                         then search_similar_documents e (question request)
                                (max 5 (context_limit request)) 0
                         else result_sources r)
             in case py_float e (dict_get (parsed_fields r) (u ''confidence'') (PyNum 0.75)) of
                  Raises x \<Rightarrow> Raises x
                | Returns confidence \<Rightarrow>
                    Returns (Draft (dict_get (parsed_fields r) (u ''answer'') PyNone)
                               srcs confidence))
          else classical_answer e s request)"

text \<open>
  Then the validation pass, when the validation model is set, and the response. The
  validation of \<open>AnswerResponse\<close> accepts a string as answer and rejects every other
  value.
\<close>

definition build_response ::
  "env \<Rightarrow> rag_service \<Rightarrow> question_request \<Rightarrow> pyval \<Rightarrow> source list \<Rightarrow> real
     \<Rightarrow> answer_response outcome" where
  "build_response e s request answer_text srcs confidence =
     (let (validated_text, validated_confidence) =
            (if is_gemini_available (llm s)
             then (let (validated_answer, validation_score) =
                         validate_answer_with_gemini e (llm s) (question request)
                           answer_text srcs
                   in (validated_answer, py_max confidence validation_score))
             else (answer_text, Returns confidence))
      in case validated_confidence of
           Raises x \<Rightarrow> Raises x
         | Returns c \<Rightarrow>
             (case validated_text of
                PyStr a \<Rightarrow>
                  Returns \<lparr> answer = a,
                            sources = srcs,
                            confidence_score = c,
                            processing_time = elapsed e,
                            timestamp = now e \<rparr>
              | v \<Rightarrow> Raises (AnswerValidationError v)))"

text \<open>
  \<open>ask_question\<close>: the response and the service as the call leaves it. The only
  exception that leaves the call is the one of a service that is not initialised; every
  other one becomes the degraded response. Only a built response is saved.
\<close>

definition ask_question ::
  "env \<Rightarrow> rag_service \<Rightarrow> question_request \<Rightarrow> (answer_response \<times> rag_service) outcome" where
  "ask_question e s request =
     (if \<not> is_initialized s
      then Raises (Exception (u ''Service RAG non initialis'' @ [233]))
      else
        (case handle_greetings e (question request) of
           Some greeting_response \<Rightarrow> Returns (greeting_response, s)
         | None \<Rightarrow>
             (case check_history_cache e s (question request) of
                Some cached \<Rightarrow> Returns (cached, s)
              | None \<Rightarrow>
                  (let (multi_agent_result, s1) = run_multi_agent e s request
                   in case multi_agent_result of
                        Raises x \<Rightarrow> Returns (error_response e x, s1)
                      | Returns r \<Rightarrow>
                          (case draft_answer e s1 request r of
                             Raises x \<Rightarrow> Returns (error_response e x, s1)
                           | Returns NoInformation \<Rightarrow>
                               Returns (no_information_response e, s1)
                           | Returns (Draft answer_text srcs confidence) \<Rightarrow>
                               (case build_response e s1 request answer_text srcs
                                       confidence of
                                  Raises x \<Rightarrow> Returns (error_response e x, s1)
                                | Returns response \<Rightarrow>
                                    Returns (response,
                                      save_to_history e (question request) response
                                        s1)))))))"

section \<open>A sample environment\<close>

text \<open>
  Concrete inputs for the examples below: \<open>str.lower\<close> as it acts on ASCII text, a
  parser that knows two documents (an object and a string), an index with three candidates or with none, and a
  local model with one answer.
\<close>

definition ascii_lower :: "ustr \<Rightarrow> ustr" where
  "ascii_lower s = map (\<lambda>c. if 65 \<le> c \<and> c \<le> 90 then c + 32 else c) s"

definition sample_json_text :: ustr where
  "sample_json_text = u ''{'' @ [34] @ u ''answer'' @ [34] @ u '': '' @ [34] @ u ''ok'' @ [34] @ u ''}''"

definition quoted_text :: ustr where
  "quoted_text = [34] @ u ''abc'' @ [34]"

definition sample_json_loads :: "ustr \<Rightarrow> pyval outcome" where
  "sample_json_loads s =
     (if s = sample_json_text then Returns (PyDict [(u ''answer'', PyStr (u ''ok''))])
      else if s = quoted_text then Returns (PyStr (u ''abc''))
      else Raises JSONDecodeError)"

definition sample_metadata :: metadata where
  "sample_metadata =
     \<lparr> m_doc = Some (u ''Code de commerce''),
       m_titre = None,
       m_chapitre = None,
       m_article = Some (u ''5''),
       m_contenu = Some (u ''Le capital minimum est de 300000 MAD.''),
       m_pages = None,
       m_source_file = Some (u ''commerce.csv'') \<rparr>"

definition sample_results :: query_result where
  "sample_results =
     \<lparr> r_metadatas = Some [[sample_metadata, sample_metadata, sample_metadata]],
       r_documents = Some [[[], [], []]],
       r_distances = Some [[Distance (1 / 4), Distance 3, Distance (3 / 4)]] \<rparr>"

definition empty_results :: query_result where
  "empty_results =
     \<lparr> r_metadatas = Some [[]], r_documents = Some [[]], r_distances = Some [[]] \<rparr>"

definition sample_answer_text :: ustr where
  "sample_answer_text =
     u ''Selon l'' @
     [39] @
     u ''article 5 du Code de commerce, le capital minimum est de 300000 MAD.''"

definition sample_env :: env where
  "sample_env =
     \<lparr> py_lower = ascii_lower,
       json_loads = sample_json_loads,
       float_of_str = (\<lambda>s. None),
       py_str = (\<lambda>v. u ''<value>''),
       exn_text = (\<lambda>x. u ''error''),
       now = 7,
       elapsed = 1 / 2,
       uuid4 = u ''id-1'',
       file_write = Written,
       CREW_AGENT_TOP_K = 3,
       CREW_MIN_SCORE = 5 / 100,
       collection_query = (\<lambda>query n_results src_file. Returns sample_results),
       crew_kickoff = (\<lambda>question_text active. Raises (Exception (u ''offline''))),
       ollama_generate = (\<lambda>question_text srcs. Returns (Some sample_answer_text)),
       gemini_generate = (\<lambda>question_text ans srcs. Raises (Exception (u ''offline''))) \<rparr>"

definition empty_index_env :: env where
  "empty_index_env =
     sample_env\<lparr>collection_query := (\<lambda>query n_results src_file. Returns empty_results)\<rparr>"

definition sample_service :: rag_service where
  "sample_service =
     \<lparr> conversation_history = [],
       is_initialized = True,
       multi_agent_service = None,
       llm = \<lparr> ollama_client = True, gemini_model = False \<rparr>,
       history_file = Missing \<rparr>"

definition sample_source :: "ustr \<Rightarrow> source" where
  "sample_source body =
     \<lparr> doc = u ''Code de commerce'',
       titre = None,
       chapitre = None,
       article = Some (u ''5''),
       contenu = body,
       pages = None,
       source_file = u ''commerce.csv'',
       relevance_score = 3 / 4 \<rparr>"

definition sample_response :: "ustr \<Rightarrow> answer_response" where
  "sample_response body =
     \<lparr> answer = sample_answer_text,
       sources = [sample_source body],
       confidence_score = 9 / 10,
       processing_time = 1 / 2,
       timestamp = 7 \<rparr>"

text \<open>Appending a sequence of answers, each with the environment of its request.\<close>

fun save_all :: "(env \<times> ustr \<times> answer_response) list \<Rightarrow> rag_service \<Rightarrow> rag_service" where
  "save_all [] s = s"
| "save_all ((e, question_text, response) # rest) s =
     save_all rest (save_to_history e question_text response s)"

definition sample_entry :: "ustr \<Rightarrow> history_entry" where
  "sample_entry question_text =
     history_entry_of sample_env question_text (sample_response (u ''Le capital''))"

definition three_entries :: rag_service where
  "three_entries =
     sample_service\<lparr>conversation_history :=
       [sample_entry (u ''a''), sample_entry (u ''b''), sample_entry (u ''c'')]\<rparr>"

definition sample_crew :: crew_service where
  "sample_crew =
     \<lparr> is_available = True,
       dataset_files = [u ''commerce.csv''],
       dataset_agents = [u ''commerce.csv''],
       supervisor_agent = True,
       latest_sources = [] \<rparr>"




text \<open>Two requests in a row, in the same environment: the outcome of the second.\<close>

definition ask_twice ::
  "env \<Rightarrow> rag_service \<Rightarrow> question_request \<Rightarrow> question_request
     \<Rightarrow> (answer_response \<times> rag_service) outcome" where
  "ask_twice e s request request' =
     (case ask_question e s request of
        Raises x \<Rightarrow> Raises x
      | Returns (r, s') \<Rightarrow> ask_question e s' request')"

definition capital_request :: question_request where
  "capital_request = \<lparr> question = u ''Capital minimum ?'', context_limit = 3 \<rparr>"

definition capital_request_upper :: question_request where
  "capital_request_upper = \<lparr> question = u ''  CAPITAL MINIMUM ?  '', context_limit = 3 \<rparr>"

definition sample_found :: "source list" where
  "sample_found =
     [source_of_metadata sample_metadata (3 / 4),
      source_of_metadata sample_metadata (1 / 4),
      source_of_metadata sample_metadata (1 / 4)]"

definition first_response :: answer_response where
  "first_response =
     \<lparr> answer = sample_answer_text,
       sources = sample_found,
       confidence_score = 1,
       processing_time = 1 / 2,
       timestamp = 7 \<rparr>"

definition after_first :: rag_service where
  "after_first =
     save_to_history sample_env (question capital_request) first_response sample_service"

definition crew_rag_service :: rag_service where
  "crew_rag_service = sample_service\<lparr>multi_agent_service := Some sample_crew\<rparr>"

section \<open>Relevance scores and the threshold\<close>

lemma collect_sources_threshold:
  "s \<in> set (collect_sources cands t) \<Longrightarrow> t \<le> relevance_score s"
  by (induction cands t rule: collect_sources.induct)
     (auto simp: source_of_metadata_def split: if_splits)

lemma collect_sources_mono:
  "t \<le> t' \<Longrightarrow> length (collect_sources cands t') \<le> length (collect_sources cands t)"
  by (induction cands t rule: collect_sources.induct) auto

lemma sources_of_query_threshold:
  "s \<in> set (sources_of_query q t) \<Longrightarrow> t \<le> relevance_score s"
  by (auto simp: sources_of_query_def dest: collect_sources_threshold
           split: outcome.splits option.splits list.splits)

lemma sources_of_query_mono:
  "t \<le> t' \<Longrightarrow> length (sources_of_query q t') \<le> length (sources_of_query q t)"
  by (auto simp: sources_of_query_def collect_sources_mono
           split: outcome.splits option.splits list.splits)

text \<open>
  Claim C2. A raw distance \<open>d\<close> between 0 and 1 gets the relevance \<open>1 - d\<close>, a distance
  above 1 gets \<open>1 / (1 + d)\<close>, and in both cases the relevance lies between 0 and 1.
\<close>

theorem relevance_normalization:
  "(0 \<le> d \<and> d \<le> 1 \<longrightarrow> similarity_score (Distance d) = 1 - d) \<and>
   (1 < d \<longrightarrow> similarity_score (Distance d) = 1 / (1 + d)) \<and>
   ((0 \<le> d \<and> d \<le> 1) \<or> 1 < d \<longrightarrow>
      0 \<le> similarity_score (Distance d) \<and> similarity_score (Distance d) \<le> 1)"
proof (intro conjI impI)
  assume "(0 \<le> d \<and> d \<le> 1) \<or> 1 < d"
  then show "0 \<le> similarity_score (Distance d)" by auto
next
  assume "(0 \<le> d \<and> d \<le> 1) \<or> 1 < d"
  then show "similarity_score (Distance d) \<le> 1" by (auto simp: field_simps)
qed simp_all

theorem relevance_normalization_witness:
  "similarity_score (Distance (1 / 4)) = 3 / 4 \<and>
   similarity_score (Distance 3) = 1 / 4"
  using relevance_normalization [of "1 / 4"] relevance_normalization [of 3] by simp

lemma sample_search_half:
  "map relevance_score (search_similar_documents sample_env q 5 (1 / 2)) = [3 / 4]"
  by (simp add: search_similar_documents_def sources_of_query_def sample_env_def
        sample_results_def source_of_metadata_def)

text \<open>
  Claim C3. For every threshold \<open>t\<close>, every source the search returns has a relevance of
  at least \<open>t\<close> (a candidate below it is dropped), and for the same query and the same
  candidates a higher threshold never returns more sources.
\<close>

theorem search_threshold_monotone:
  "(\<forall>s \<in> set (search_similar_documents e query n t). t \<le> relevance_score s) \<and>
   (t \<le> t' \<longrightarrow>
      length (search_similar_documents e query n t')
        \<le> length (search_similar_documents e query n t))"
  by (simp add: search_similar_documents_def sources_of_query_threshold sources_of_query_mono)

theorem search_threshold_monotone_witness:
  "map relevance_score (search_similar_documents sample_env (u ''capital'') 5 (1 / 2)) = [3 / 4] \<and>
   (1 / 2 :: real) \<le> 3 / 4 \<and>
   (0::real) \<le> 1 / 2 \<and>
   length (search_similar_documents sample_env (u ''capital'') 5 (1 / 2))
     \<le> length (search_similar_documents sample_env (u ''capital'') 5 0)"
  using search_threshold_monotone [of sample_env "u ''capital''" 5 "1 / 2" "1 / 2"]
    search_threshold_monotone [of sample_env "u ''capital''" 5 0 "1 / 2"]
  by (simp add: sample_search_half)

section \<open>The history: bound, listing, clearing\<close>

lemma drop_last_append:
  "drop (length (drop (length xs - n) xs @ ys) - n) (drop (length xs - n) xs @ ys) =
   drop (length (xs @ ys) - n) (xs @ ys)"
  by (cases "length xs \<le> n") (auto simp: add.commute)

lemma slice_from_last:
  assumes "0 < n"
  shows "slice_from xs (- int n) = drop (length xs - n) xs"
proof -
  have "nat (max (int (length xs) + - int n) 0) = length xs - n"
    by (simp add: max_def nat_diff_distrib')
  with assms show ?thesis by (simp add: slice_from_def Let_def)
qed

lemma history_after_save:
  "conversation_history (save_to_history e q r s) =
     drop (length (conversation_history s @ [history_entry_of e q r]) - 100)
       (conversation_history s @ [history_entry_of e q r])"
proof -
  have "slice_from xs (- 100) = drop (length xs - 100) xs" for xs :: "history_entry list"
    using slice_from_last [where xs = xs and n = 100] by simp
  then show ?thesis
    by (simp add: save_to_history_def persist_history_to_file_def Let_def
          split: write_outcome.splits)
qed

lemma history_after_save_all:
  "conversation_history (save_all xs s) =
     (if xs = [] then conversation_history s
      else drop (length (conversation_history s @ map (\<lambda>(e, q, r). history_entry_of e q r) xs) - 100)
             (conversation_history s @ map (\<lambda>(e, q, r). history_entry_of e q r) xs))"
proof (induction xs arbitrary: s)
  case Nil
  show ?case by simp
next
  case (Cons x xs)
  obtain e q r where x: "x = (e, q, r)" by (cases x) auto
  let ?rest = "map (\<lambda>(e, q, r). history_entry_of e q r) xs"
  show ?case
  proof (cases "xs = []")
    case True
    then show ?thesis using x by (simp add: history_after_save)
  next
    case False
    have "conversation_history (save_all (x # xs) s) =
          conversation_history (save_all xs (save_to_history e q r s))"
      by (simp add: x)
    also have "\<dots> =
        drop (length (conversation_history (save_to_history e q r s) @ ?rest) - 100)
          (conversation_history (save_to_history e q r s) @ ?rest)"
      using Cons.IH [of "save_to_history e q r s"] False by simp
    also have "\<dots> =
        drop (length ((conversation_history s @ [history_entry_of e q r]) @ ?rest) - 100)
          ((conversation_history s @ [history_entry_of e q r]) @ ?rest)"
      unfolding history_after_save by (rule drop_last_append)
    finally show ?thesis using x by simp
  qed
qed

lemma stored_content:
  "h_contenu (stored_of_source src) =
     (if length (contenu src) \<le> 200 then contenu src
      else take 200 (contenu src) @ u ''...'')"
  by (simp add: stored_of_source_def slice_to_def Let_def min_def)

text \<open>
  Claim C6, as amended. After any non-empty sequence of appends the history is the last
  100 entries of the old history followed by the new entries, in that order, so it never
  holds more than 100. Each stored source keeps a content of at most 200 characters
  as it is, and a longer one as its first 200 characters followed by three dots: a stored
  content has at most 203 characters.
\<close>

theorem history_bound_and_truncation:
  "(xs \<noteq> [] \<longrightarrow>
      conversation_history (save_all xs s) =
        drop (length (conversation_history s @ map (\<lambda>(e, q, r). history_entry_of e q r) xs) - 100)
          (conversation_history s @ map (\<lambda>(e, q, r). history_entry_of e q r) xs) \<and>
      length (conversation_history (save_all xs s)) \<le> 100) \<and>
   e_sources (history_entry_of e q r) = map stored_of_source (sources r) \<and>
   h_contenu (stored_of_source src) =
     (if length (contenu src) \<le> 200 then contenu src
      else take 200 (contenu src) @ u ''...'') \<and>
   length (h_contenu (stored_of_source src)) \<le> 203"
proof (intro conjI impI)
  show "e_sources (history_entry_of e q r) = map stored_of_source (sources r)"
    by (simp add: history_entry_of_def)
  show "length (h_contenu (stored_of_source src)) \<le> 203"
    by (simp add: stored_content u_def)
qed (simp_all add: history_after_save_all stored_content)

theorem history_bound_and_truncation_witness:
  "replicate 101 (sample_env, u ''a'', sample_response (replicate 201 97)) \<noteq> [] \<and>
   length (conversation_history (save_all
      (replicate 101 (sample_env, u ''a'', sample_response (replicate 201 97)))
      sample_service)) = 100"
  using history_bound_and_truncation
    [of "replicate 101 (sample_env, u ''a'', sample_response (replicate 201 97))"
        sample_service]
  by (simp add: sample_service_def)

text \<open>
  The cap of 200 characters on every stored content does not hold: a content of 201
  characters is stored with 203.
\<close>

theorem stored_content_counterexample:
  "length (h_contenu (hd (e_sources (last (conversation_history
      (save_to_history sample_env (u ''Capital minimum ?'')
         (sample_response (replicate 201 97)) sample_service)))))) = 203"
  by (simp add: save_to_history_def persist_history_to_file_def sample_env_def sample_service_def
        history_entry_of_def sample_response_def sample_source_def stored_of_source_def
        slice_to_def u_def Let_def)

lemma history_listing_negative:
  assumes "limit < 0"
  shows "get_conversation_history s limit = drop (nat (- limit)) (conversation_history s)"
proof -
  have "nat (min (- limit) (int (length xs))) = min (nat (- limit)) (length xs)"
    for xs :: "history_entry list"
    using assms by (simp add: min_def) linarith
  moreover have "drop (min n (length xs)) xs = drop n xs" for n and xs :: "history_entry list"
    by (simp add: min_def)
  ultimately show ?thesis
    using assms by (simp add: get_conversation_history_def slice_from_def Let_def)
qed

text \<open>
  Claim C10. The history listing returns the last \<open>limit\<close> entries of the history in
  stored order, except that for the limit 0 it returns the whole history.
\<close>

theorem history_listing:
  "(0 < limit \<longrightarrow>
      get_conversation_history s limit =
        drop (length (conversation_history s) - nat limit) (conversation_history s)) \<and>
   (limit = 0 \<longrightarrow> get_conversation_history s limit = conversation_history s)"
proof (intro conjI impI)
  assume "0 < limit"
  then show "get_conversation_history s limit =
        drop (length (conversation_history s) - nat limit) (conversation_history s)"
    using slice_from_last [where n = "nat limit" and xs = "conversation_history s"]
    by (simp add: get_conversation_history_def)
next
  assume "limit = 0"
  then show "get_conversation_history s limit = conversation_history s"
    by (simp add: get_conversation_history_def slice_from_def)
qed

theorem history_listing_witness:
  "get_conversation_history three_entries 2 = [sample_entry (u ''b''), sample_entry (u ''c'')] \<and>
   get_conversation_history three_entries 0 =
     [sample_entry (u ''a''), sample_entry (u ''b''), sample_entry (u ''c'')]"
  using history_listing [of 2 three_entries] history_listing [of 0 three_entries]
  by (simp add: three_entries_def)

text \<open>
  Claim C9. \<open>clear_history\<close> empties the history in memory and returns \<open>True\<close>, and it
  leaves the history file as it is, where an append that succeeds in writing rewrites the
  file with the history. So a service started on the file after a clear has the
  entries of the file again.
\<close>

theorem clear_history_keeps_file:
  "clear_history s = (True, s\<lparr>conversation_history := []\<rparr>) \<and>
   history_file (snd (clear_history s)) = history_file s \<and>
   (file_write e = Written \<longrightarrow>
      history_file (save_to_history e q r s)
        = Stored (conversation_history (save_to_history e q r s))) \<and>
   (history_file s = Stored h \<longrightarrow>
      conversation_history (new_rag_service l (history_file (snd (clear_history s)))) = h)"
  by (simp add: clear_history_def save_to_history_def persist_history_to_file_def
        new_rag_service_def load_history_from_file_def Let_def)

theorem clear_history_keeps_file_witness:
  "file_write sample_env = Written \<and>
   history_file (save_to_history sample_env (u ''a'') (sample_response (u ''Le capital''))
      sample_service) = Stored [sample_entry (u ''a'')] \<and>
   conversation_history (new_rag_service (llm sample_service)
      (history_file (snd (clear_history
         (save_to_history sample_env (u ''a'') (sample_response (u ''Le capital''))
            sample_service)))))
     = [sample_entry (u ''a'')]"
proof -
  let ?s1 = "save_to_history sample_env (u ''a'') (sample_response (u ''Le capital''))
               sample_service"
  have w: "file_write sample_env = Written"
    by (simp add: sample_env_def)
  have f: "history_file ?s1 = Stored [sample_entry (u ''a'')]"
    by (simp add: save_to_history_def persist_history_to_file_def Let_def sample_env_def
          sample_service_def sample_entry_def)
  show ?thesis
    using w f clear_history_keeps_file [where s = ?s1 and e = sample_env
        and h = "[sample_entry (u ''a'')]" and l = "llm sample_service"]
    by blast
qed

section \<open>The confidence heuristic\<close>

text \<open>\<open>str_in\<close> is the substring relation.\<close>

lemma startswith_iff: "startswith s p \<longleftrightarrow> (\<exists>post. s = p @ post)"
  by (induction s p rule: startswith.induct) auto

lemma str_in_iff: "str_in a b \<longleftrightarrow> (\<exists>pre post. b = pre @ a @ post)"
proof (induction b)
  case Nil
  show ?case by auto
next
  case (Cons c cs)
  show ?case
  proof
    assume "str_in a (c # cs)"
    then consider "startswith (c # cs) a" | "str_in a cs" by auto
    then show "\<exists>pre post. c # cs = pre @ a @ post"
    proof cases
      case 1
      then obtain post where "c # cs = a @ post" by (auto simp: startswith_iff)
      then have "c # cs = [] @ a @ post" by simp
      then show ?thesis by blast
    next
      case 2
      then obtain pre post where "cs = pre @ a @ post" using Cons.IH by auto
      then have "c # cs = (c # pre) @ a @ post" by simp
      then show ?thesis by blast
    qed
  next
    assume "\<exists>pre post. c # cs = pre @ a @ post"
    then obtain pre post where eq: "c # cs = pre @ a @ post" by auto
    show "str_in a (c # cs)"
    proof (cases pre)
      case Nil
      with eq have "startswith (c # cs) a" by (auto simp: startswith_iff)
      then show ?thesis by simp
    next
      case (Cons p pre')
      with eq have "cs = pre' @ a @ post" by simp
      then have "str_in a cs" using Cons.IH by blast
      then show ?thesis by simp
    qed
  qed
qed

lemma sample_lower: "py_lower sample_env = ascii_lower" by (simp add: sample_env_def)

lemma sample_answer_lower:
  "ascii_lower sample_answer_text = u ''selon l'' @
     [39] @
     u ''article 5 du code de commerce, le capital minimum est de 300000 mad.''"
  by (simp add: ascii_lower_def sample_answer_text_def u_def)

lemma sample_answer_nonempty: "sample_answer_text \<noteq> []" "length sample_answer_text = 76"
  by (simp_all add: sample_answer_text_def u_def)

lemma sample_keyword:
  "list_ex (\<lambda>keyword. str_in keyword (ascii_lower sample_answer_text)) legal_keywords"
  by (simp add: sample_answer_lower legal_keywords_def u_def)

lemma sample_doc_name:
  "str_in (ascii_lower (doc (sample_source body))) (ascii_lower sample_answer_text)"
proof -
  have "ascii_lower (doc (sample_source body)) = u ''code de commerce''"
    by (simp add: sample_source_def ascii_lower_def u_def)
  then show ?thesis by (simp add: sample_answer_lower u_def)
qed

text \<open>
  Claim C8, as amended. For a non-empty answer text and a non-empty source list the
  confidence is 0.5, plus 0.2 if a legal keyword occurs in the lower-cased answer, plus
  0.2 if the lower-cased document name of some source occurs in the lower-cased answer,
  plus 0.1 if the answer has between 50 and 2000 characters, capped at 1; it lies between
  0.5 and 1. For an empty answer text or an empty source list the confidence is 0.
\<close>

theorem confidence_heuristic:
  "(ans \<noteq> [] \<and> srcs \<noteq> [] \<longrightarrow>
      calculate_confidence_score e ans srcs =
        min 1 (1 / 2
          + (if list_ex (\<lambda>keyword. str_in keyword (py_lower e ans)) legal_keywords
             then 1 / 5 else 0)
          + (if list_ex (\<lambda>s. str_in (py_lower e (doc s)) (py_lower e ans)) srcs
             then 1 / 5 else 0)
          + (if 50 \<le> length ans \<and> length ans \<le> 2000 then 1 / 10 else 0)) \<and>
      1 / 2 \<le> calculate_confidence_score e ans srcs \<and>
      calculate_confidence_score e ans srcs \<le> 1) \<and>
   (ans = [] \<or> srcs = [] \<longrightarrow> calculate_confidence_score e ans srcs = 0)"
  by (simp add: calculate_confidence_score_def Let_def min_def)

theorem confidence_heuristic_witness:
  "calculate_confidence_score sample_env sample_answer_text [sample_source (u ''Le capital'')] = 1 \<and>
   calculate_confidence_score sample_env (u ''Oui.'') [sample_source (u ''Le capital'')] = 1 / 2 \<and>
   calculate_confidence_score sample_env sample_answer_text [] = 0"
proof -
  have "str_in keyword (ascii_lower (u ''Oui.'')) \<Longrightarrow> keyword \<in> set legal_keywords \<Longrightarrow> False" for keyword
    by (auto simp: legal_keywords_def ascii_lower_def u_def)
  then have k: "\<not> list_ex (\<lambda>keyword. str_in keyword (ascii_lower (u ''Oui.''))) legal_keywords"
    by (auto simp: list_ex_iff)
  have d: "\<not> str_in (ascii_lower (doc (sample_source body))) (ascii_lower (u ''Oui.''))" for body
    by (simp add: sample_source_def ascii_lower_def u_def)
  have n: "u ''Oui.'' \<noteq> []" "length (u ''Oui.'') = 4" by (simp_all add: u_def)
  show ?thesis
    using confidence_heuristic [of sample_answer_text "[sample_source (u ''Le capital'')]" sample_env]
      confidence_heuristic [of "u ''Oui.''" "[sample_source (u ''Le capital'')]" sample_env]
      confidence_heuristic [of sample_answer_text "[]" sample_env]
    by (simp add: sample_lower sample_answer_nonempty sample_keyword sample_doc_name k d n)
qed

text \<open>
  Without the restriction the base of 0.5 fails: an empty answer, which a model may
  well give, has the confidence 0 whatever the sources.
\<close>

theorem confidence_heuristic_counterexample:
  "calculate_confidence_score sample_env [] [sample_source (u ''Le capital'')] < 1 / 2"
  by (simp add: calculate_confidence_score_def)

section \<open>The greeting short-circuit\<close>

lemma find_member: "x \<in> set xs \<Longrightarrow> find (\<lambda>y. y = x) xs = Some x"
  by (induction xs) auto

lemma handle_greetings_greeting:
  assumes "py_lower e (strip q) \<in> set greetings"
  shows "handle_greetings e q =
     Some \<lparr> answer = response_text (py_lower e (strip q)), sources = [],
            confidence_score = 1, processing_time = 0, timestamp = now e \<rparr>"
  using assms by (simp add: handle_greetings_def Let_def find_member)

lemma sample_normalized_bonjour:
  "py_lower sample_env (strip (u ''  Bonjour '')) = u ''bonjour''"
  by (simp add: sample_lower ascii_lower_def strip_def isspace_def u_def)

lemma sample_normalized_merci:
  "py_lower sample_env (strip (u ''MERCI'')) = u ''merci''"
  by (simp add: sample_lower ascii_lower_def strip_def isspace_def u_def)

lemma response_text_bonjour: "response_text (u ''bonjour'') = greeting_text"
  by (simp add: response_text_def u_def)

lemma response_text_merci: "response_text (u ''merci'') = thanks_text"
  by (simp add: response_text_def u_def)

text \<open>
  Claim C7. When the question, stripped and lower-cased, is one of the greetings,
  \<open>_handle_greetings\<close> gives one of the three canned texts with confidence 1, no
  source and processing time 0, and \<open>ask_question\<close> on an initialised service returns
  that answer and leaves the service as it was: nothing of the cache, the index, the
  models or the history file is read or written.
\<close>

theorem greeting_short_circuit:
  assumes "py_lower e (strip (question request)) \<in> set greetings"
  shows "handle_greetings e (question request) =
           Some \<lparr> answer = response_text (py_lower e (strip (question request))),
                  sources = [], confidence_score = 1, processing_time = 0,
                  timestamp = now e \<rparr> \<and>
         response_text (py_lower e (strip (question request)))
           \<in> {greeting_text, thanks_text, closing_text} \<and>
         (is_initialized s \<longrightarrow>
            ask_question e s request =
              Returns (\<lparr> answer = response_text (py_lower e (strip (question request))),
                         sources = [], confidence_score = 1, processing_time = 0,
                         timestamp = now e \<rparr>, s))"
proof (intro conjI impI)
  show "response_text (py_lower e (strip (question request)))
          \<in> {greeting_text, thanks_text, closing_text}"
    by (simp add: response_text_def)
next
  assume "is_initialized s"
  then show "ask_question e s request =
              Returns (\<lparr> answer = response_text (py_lower e (strip (question request))),
                         sources = [], confidence_score = 1, processing_time = 0,
                         timestamp = now e \<rparr>, s)"
    using handle_greetings_greeting [OF assms] by (simp add: ask_question_def)
qed (rule handle_greetings_greeting [OF assms])

theorem greeting_short_circuit_witness:
  "ask_question sample_env sample_service \<lparr> question = u ''  Bonjour '', context_limit = 5 \<rparr> =
     Returns (\<lparr> answer = greeting_text, sources = [], confidence_score = 1,
                processing_time = 0, timestamp = 7 \<rparr>, sample_service) \<and>
   ask_question sample_env sample_service \<lparr> question = u ''MERCI'', context_limit = 5 \<rparr> =
     Returns (\<lparr> answer = thanks_text, sources = [], confidence_score = 1,
                processing_time = 0, timestamp = 7 \<rparr>, sample_service)"
proof -
  have g: "u ''bonjour'' \<in> set greetings" "u ''merci'' \<in> set greetings"
    by (simp_all add: greetings_def)
  have i: "is_initialized sample_service" "now sample_env = 7"
    by (simp_all add: sample_service_def sample_env_def)
  show ?thesis
    using greeting_short_circuit [of sample_env "\<lparr> question = u ''  Bonjour '', context_limit = 5 \<rparr>" sample_service]
      greeting_short_circuit [of sample_env "\<lparr> question = u ''MERCI'', context_limit = 5 \<rparr>" sample_service]
    by (simp add: sample_normalized_bonjour sample_normalized_merci g i
          response_text_bonjour response_text_merci)
qed

section \<open>Parsing the supervisor's output\<close>











text \<open>
  An exception leaves the parse only when \<open>json.loads\<close> raised it and it is not a
  \<open>JSONDecodeError\<close>.
\<close>

lemma parse_supervisor_output_raises:
  assumes "parse_supervisor_output e given = Raises x"
  shows "x \<noteq> JSONDecodeError \<and> (\<exists>t. json_loads e t = Raises x)"
  using assms
  by (auto simp: parse_supervisor_output_def Let_def
           split: if_splits outcome.splits option.splits)








section \<open>The paths of \<open>ask_question\<close>\<close>

lemma gather_contexts_empty:
  "\<forall>dataset \<in> set files.
      search_documents_for_dataset e q dataset per_dataset (CREW_MIN_SCORE e) = [] \<Longrightarrow>
   gather_contexts e q per_dataset files = ([], [])"
  by (induction files) (simp_all add: Let_def)

lemma gather_contexts_sources:
  "gather_contexts e q per_dataset files = (contexts, aggregated) \<Longrightarrow>
   contexts \<noteq> [] \<Longrightarrow> aggregated \<noteq> []"
  by (induction files arbitrary: contexts aggregated)
     (auto simp: Let_def split: prod.splits if_splits)

lemma slice_to_nonempty: "xs \<noteq> [] \<Longrightarrow> 0 < k \<Longrightarrow> slice_to xs k \<noteq> []"
  by (cases xs) (auto simp: slice_to_def Let_def min_def)

lemma run_no_contexts:
  assumes "\<forall>dataset \<in> set (dataset_files svc).
      search_documents_for_dataset e q dataset (max limit (CREW_AGENT_TOP_K e))
        (CREW_MIN_SCORE e) = []"
  shows "fst (run e svc q limit) = Returns None"
  using gather_contexts_empty [OF assms]
  by (simp add: run_def prepare_dataset_contexts_def Let_def)

lemma run_result_sources:
  assumes "run e svc q limit = (Returns (Some r), svc')"
  shows "result_sources r \<noteq> []"
proof -
  obtain contexts aggregated where g:
    "gather_contexts e q (max limit (CREW_AGENT_TOP_K e)) (dataset_files svc) = (contexts, aggregated)"
    by (cases "gather_contexts e q (max limit (CREW_AGENT_TOP_K e)) (dataset_files svc)")
  let ?active = "filter (\<lambda>dataset. map_of contexts dataset \<noteq> None) (dataset_agents svc)"
  from assms g have act: "?active \<noteq> []"
    and r: "result_sources r = slice_to aggregated (max limit 3)"
    by (auto simp: run_def prepare_dataset_contexts_def Let_def
             split: if_splits outcome.splits pyval.splits)
  from act have "contexts \<noteq> []" by (cases contexts) auto
  with g have "aggregated \<noteq> []" by (rule gather_contexts_sources)
  then show ?thesis unfolding r by (rule slice_to_nonempty) simp
qed

lemma run_history:
  "run_multi_agent e s request = (r, s1) \<Longrightarrow>
   conversation_history s1 = conversation_history s \<and> history_file s1 = history_file s \<and>
   llm s1 = llm s \<and> is_initialized s1 = is_initialized s"
  by (auto simp: run_multi_agent_def split: option.splits if_splits prod.splits)

lemma run_multi_agent_sources:
  "run_multi_agent e s request = (Returns (Some r), s1) \<Longrightarrow> result_sources r \<noteq> []"
  by (auto simp: run_multi_agent_def dest: run_result_sources
           split: option.splits if_splits prod.splits)

lemma run_multi_agent_no_contexts:
  assumes "\<forall>svc. multi_agent_service s = Some svc \<longrightarrow>
      (\<forall>dataset \<in> set (dataset_files svc).
         search_documents_for_dataset e (question request) dataset
           (max (context_limit request) (CREW_AGENT_TOP_K e)) (CREW_MIN_SCORE e) = [])"
  shows "fst (run_multi_agent e s request) = Returns None"
proof (cases "multi_agent_service s")
  case None
  then show ?thesis by (simp add: run_multi_agent_def)
next
  case (Some svc)
  with assms have "fst (run e svc (question request) (context_limit request)) = Returns None"
    by (intro run_no_contexts) simp
  with Some show ?thesis
    by (cases "run e svc (question request) (context_limit request)")
       (simp add: run_multi_agent_def)
qed

lemma classical_answer_sources:
  "classical_answer e s request = Returns (Draft a srcs c) \<Longrightarrow> srcs \<noteq> []"
  by (auto simp: classical_answer_def Let_def split: if_splits outcome.splits prod.splits)

lemma draft_answer_sources:
  assumes "draft_answer e s request mr = Returns (Draft a srcs c)"
    and "\<And>r. mr = Some r \<Longrightarrow> result_sources r \<noteq> []"
  shows "srcs \<noteq> []"
  using assms
  by (auto simp: draft_answer_def Let_def dest: classical_answer_sources
           split: option.splits if_splits outcome.splits)

lemma build_response_sources:
  "build_response e s request a srcs c = Returns r \<Longrightarrow> sources r = srcs"
  by (auto simp: build_response_def Let_def
           split: if_splits prod.splits outcome.splits pyval.splits)

lemma ask_question_paths:
  assumes "is_initialized s"
    and "handle_greetings e (question request) = None"
    and "check_history_cache e s (question request) = None"
    and "ask_question e s request = Returns (r, s')"
  shows "(\<exists>x. r = error_response e x) \<and> conversation_history s' = conversation_history s \<or>
         r = no_information_response e \<and> conversation_history s' = conversation_history s \<or>
         sources r \<noteq> [] \<and>
           (\<exists>s1. s' = save_to_history e (question request) r s1 \<and>
                 conversation_history s1 = conversation_history s \<and> is_initialized s1)"
proof -
  obtain mr s1 where m: "run_multi_agent e s request = (mr, s1)"
    by (cases "run_multi_agent e s request")
  have h: "conversation_history s1 = conversation_history s" "is_initialized s1"
    using run_history [OF m] assms(1) by simp_all
  show ?thesis
  proof (cases mr)
    case (Raises x)
    with assms m h show ?thesis by (auto simp: ask_question_def)
  next
    case (Returns res)
    show ?thesis
    proof (cases "draft_answer e s1 request res")
      case (Raises x)
      with assms m h Returns show ?thesis by (auto simp: ask_question_def)
    next
      case dr: (Returns d)
      show ?thesis
      proof (cases d)
        case NoInformation
        with assms m h Returns dr show ?thesis by (auto simp: ask_question_def)
      next
        case (Draft a srcs c)
        have "result_sources x \<noteq> []" if "res = Some x" for x
          using that m Returns run_multi_agent_sources [of e s request x s1] by simp
        with dr Draft have ne: "srcs \<noteq> []"
          using draft_answer_sources [of e s1 request res a srcs c] by blast
        show ?thesis
        proof (cases "build_response e s1 request a srcs c")
          case (Raises x)
          with assms m h Returns dr Draft show ?thesis by (auto simp: ask_question_def)
        next
          case br: (Returns resp)
          with assms m Returns dr Draft
          have "r = resp" "s' = save_to_history e (question request) resp s1"
            by (auto simp: ask_question_def)
          moreover have "sources resp = srcs" using br by (rule build_response_sources)
          ultimately show ?thesis using ne h by auto
        qed
      qed
    qed
  qed
qed

lemma handle_greetings_None_iff:
  "handle_greetings e q = None \<longleftrightarrow> py_lower e (strip q) \<notin> set greetings"
  by (auto simp: handle_greetings_def Let_def find_member)

lemma save_to_history_last:
  "\<exists>older. conversation_history (save_to_history e q r s) = older @ [history_entry_of e q r]"
  unfolding history_after_save by (intro exI [of _ "drop (length (conversation_history s) - 99) (conversation_history s)"]) simp

lemma save_to_history_initialized:
  "is_initialized (save_to_history e q r s) = is_initialized s"
  by (simp add: save_to_history_def persist_history_to_file_def Let_def split: write_outcome.splits)

lemma find_skip:
  "\<forall>x \<in> set xs. \<not> P x \<Longrightarrow> find P (xs @ ys) = find P ys"
  by (induction xs) auto

lemma check_history_cache_freshest:
  assumes "conversation_history s = older @ entry # newer"
    and "py_lower e (strip (e_question entry)) = py_lower e (strip q)"
    and "\<forall>x \<in> set newer. py_lower e (strip (e_question x)) \<noteq> py_lower e (strip q)"
  shows "check_history_cache e s q = Some (cached_response e entry)"
proof -
  let ?P = "\<lambda>x. py_lower e (strip (e_question x)) = py_lower e (strip q)"
  have "find ?P (rev newer @ entry # rev older) = find ?P (entry # rev older)"
    using assms(3) by (intro find_skip) simp
  also have "\<dots> = Some entry"
    using assms(2) by simp
  finally show ?thesis
    using assms(1) by (simp add: check_history_cache_def Let_def)
qed

lemma check_history_cache_none:
  assumes "\<forall>x \<in> set (conversation_history s).
             py_lower e (strip (e_question x)) \<noteq> py_lower e (strip q)"
  shows "check_history_cache e s q = None"
proof -
  let ?P = "\<lambda>x. py_lower e (strip (e_question x)) = py_lower e (strip q)"
  have "find ?P (rev (conversation_history s) @ []) = find ?P []"
    using assms by (intro find_skip) simp
  then show ?thesis
    by (simp add: check_history_cache_def Let_def)
qed

lemma cached_response_of_entry:
  "cached_response e' (history_entry_of e q r) =
     \<lparr> answer = answer r,
       sources = map source_of_stored (map stored_of_source (sources r)),
       confidence_score = confidence_score r,
       processing_time = 0,
       timestamp = now e' \<rparr>"
  by (simp add: cached_response_def history_entry_of_def)

lemma sample_search_all:
  "search_similar_documents sample_env q n 0 = sample_found"
  by (simp add: search_similar_documents_def sources_of_query_def sample_env_def
        sample_results_def sample_found_def)

lemma empty_search:
  "search_similar_documents empty_index_env q n t = []"
  "search_documents_for_dataset empty_index_env q d n t = []"
  by (simp_all add: search_similar_documents_def search_documents_for_dataset_def
        sources_of_query_def empty_index_env_def sample_env_def empty_results_def)

lemma capital_normalized:
  "ascii_lower (strip (question capital_request)) = u ''capital minimum ?''"
  "ascii_lower (strip (question capital_request_upper)) = u ''capital minimum ?''"
  by (simp_all add: capital_request_def capital_request_upper_def ascii_lower_def strip_def
        isspace_def u_def)

lemma empty_index_lower: "py_lower empty_index_env = ascii_lower"
  by (simp add: empty_index_env_def sample_env_def)

lemma capital_not_greeting:
  "handle_greetings sample_env (question capital_request) = None"
  "handle_greetings empty_index_env (question capital_request) = None"
  by (simp_all add: handle_greetings_None_iff sample_lower empty_index_lower capital_normalized(1))
     (simp_all add: greetings_def u_def)

lemma sample_cache_empty:
  "check_history_cache e sample_service q = None"
  "check_history_cache e crew_rag_service q = None"
  by (simp_all add: check_history_cache_def sample_service_def crew_rag_service_def)

lemma sample_strip_answer: "strip sample_answer_text = sample_answer_text"
  by (simp add: strip_def sample_answer_text_def isspace_def u_def)

lemma sample_found_confidence:
  "calculate_confidence_score sample_env sample_answer_text sample_found = 1"
proof -
  have "ascii_lower (doc (source_of_metadata sample_metadata x)) = u ''code de commerce''" for x
    by (simp add: source_of_metadata_def sample_metadata_def get_default_def ascii_lower_def u_def)
  then have d: "str_in (ascii_lower (doc (source_of_metadata sample_metadata x)))
      (ascii_lower sample_answer_text)" for x
    by (simp add: sample_answer_lower u_def)
  show ?thesis
    by (simp add: calculate_confidence_score_def sample_lower sample_answer_nonempty
          sample_keyword sample_found_def d)
qed

lemma first_call:
  "ask_question sample_env sample_service capital_request = Returns (first_response, after_first)"
proof -
  have i: "is_initialized sample_service" "multi_agent_service sample_service = None"
      "llm sample_service = \<lparr> ollama_client = True, gemini_model = False \<rparr>"
    by (simp_all add: sample_service_def)
  have m: "run_multi_agent sample_env sample_service capital_request = (Returns None, sample_service)"
    by (simp add: run_multi_agent_def i)
  have g: "generate_answer_with_ollama sample_env (llm sample_service) (question capital_request)
      sample_found (context_limit capital_request) = Returns (sample_answer_text, 1)"
  proof -
    have "ollama_generate sample_env q srcs = Returns (Some sample_answer_text)" for q srcs
      by (simp add: sample_env_def)
    then show ?thesis
      by (simp add: generate_answer_with_ollama_def i sample_strip_answer
            sample_found_confidence)
  qed
  have ne: "sample_found \<noteq> []" by (simp add: sample_found_def)
  have d: "draft_answer sample_env sample_service capital_request None =
      Returns (Draft (PyStr sample_answer_text) sample_found 1)"
    by (simp add: draft_answer_def classical_answer_def sample_search_all ne g)
  have b: "build_response sample_env sample_service capital_request (PyStr sample_answer_text)
      sample_found 1 = Returns first_response"
  proof -
    have "elapsed sample_env = 1 / 2" "now sample_env = 7"
      by (simp_all add: sample_env_def)
    then show ?thesis
      by (simp add: build_response_def is_gemini_available_def i first_response_def)
  qed
  show ?thesis
    by (simp add: ask_question_def i capital_not_greeting sample_cache_empty m d b after_first_def)
qed

lemma after_first_history:
  "conversation_history after_first
     = [history_entry_of sample_env (question capital_request) first_response]"
  by (simp add: after_first_def history_after_save sample_service_def)

text \<open>
  Claim C5. For a question that is neither a greeting nor cached, on an initialised
  service: when the retrieval finds nothing (the search over the whole index returns no
  source and, if there is a crew, so does the search of each of its datasets), the answer
  is the fixed "no information" answer, with confidence 0 and no source, and the history
  is not touched. More generally every answer without a source has the confidence 0.
\<close>

theorem empty_retrieval:
  assumes "is_initialized s"
    and "handle_greetings e (question request) = None"
    and "check_history_cache e s (question request) = None"
  shows "(search_similar_documents e (question request) (max 5 (context_limit request)) 0 = [] \<and>
          (\<forall>svc. multi_agent_service s = Some svc \<longrightarrow>
             (\<forall>dataset \<in> set (dataset_files svc).
                search_documents_for_dataset e (question request) dataset
                  (max (context_limit request) (CREW_AGENT_TOP_K e)) (CREW_MIN_SCORE e) = []))
          \<longrightarrow> (\<exists>s'. ask_question e s request = Returns (no_information_response e, s') \<and>
                    conversation_history s' = conversation_history s \<and>
                    history_file s' = history_file s)) \<and>
         confidence_score (no_information_response e) = 0 \<and>
         sources (no_information_response e) = [] \<and>
         (\<forall>r s'. ask_question e s request = Returns (r, s') \<longrightarrow> sources r = [] \<longrightarrow>
            confidence_score r = 0)"
proof (intro conjI impI allI)
  assume a: "search_similar_documents e (question request) (max 5 (context_limit request)) 0 = [] \<and>
          (\<forall>svc. multi_agent_service s = Some svc \<longrightarrow>
             (\<forall>dataset \<in> set (dataset_files svc).
                search_documents_for_dataset e (question request) dataset
                  (max (context_limit request) (CREW_AGENT_TOP_K e)) (CREW_MIN_SCORE e) = []))"
  obtain mr s1 where m: "run_multi_agent e s request = (mr, s1)"
    by (cases "run_multi_agent e s request")
  have mr: "mr = Returns None"
    using run_multi_agent_no_contexts [of s e request] a m by simp
  have d: "draft_answer e s1 request None = Returns NoInformation"
    using a by (simp add: draft_answer_def classical_answer_def)
  have "ask_question e s request = Returns (no_information_response e, s1)"
    using assms m mr d by (simp add: ask_question_def)
  then show "\<exists>s'. ask_question e s request = Returns (no_information_response e, s') \<and>
                    conversation_history s' = conversation_history s \<and>
                    history_file s' = history_file s"
    using run_history [OF m] by auto
next
  fix r s'
  assume "ask_question e s request = Returns (r, s')" "sources r = []"
  then show "confidence_score r = 0"
    using ask_question_paths [OF assms, of r s']
    by (auto simp: error_response_def no_information_response_def)
qed (simp_all add: no_information_response_def)

theorem empty_retrieval_witness:
  "ask_question empty_index_env crew_rag_service capital_request =
     Returns (\<lparr> answer = no_information_text,
                sources = [],
                confidence_score = 0,
                processing_time = 1 / 2,
                timestamp = 7 \<rparr>, crew_rag_service)"
proof -
  have i: "is_initialized crew_rag_service"
      "multi_agent_service crew_rag_service = Some sample_crew"
    by (simp_all add: crew_rag_service_def sample_service_def)
  have r: "no_information_response empty_index_env =
      \<lparr> answer = no_information_text, sources = [], confidence_score = 0,
        processing_time = 1 / 2, timestamp = 7 \<rparr>"
    by (simp add: no_information_response_def empty_index_env_def sample_env_def)
  have m: "run_multi_agent empty_index_env crew_rag_service capital_request
      = (Returns None, crew_rag_service)"
    by (simp add: run_multi_agent_def i run_def prepare_dataset_contexts_def sample_crew_def
          empty_search crew_rag_service_def)
  have d: "draft_answer empty_index_env crew_rag_service capital_request None = Returns NoInformation"
    by (simp add: draft_answer_def classical_answer_def empty_search)
  have a: "ask_question empty_index_env crew_rag_service capital_request =
      Returns (no_information_response empty_index_env, crew_rag_service)"
    by (simp add: ask_question_def i capital_not_greeting sample_cache_empty m d)
  show ?thesis
    using empty_retrieval [of crew_rag_service empty_index_env capital_request] a
    by (simp add: i capital_not_greeting sample_cache_empty empty_search r)
qed

text \<open>
  Claim C1, as amended. When the answer to a question has been recorded in the history,
  a question that is the same after stripping and lower-casing gets, on the next call,
  an answer with the same text, the recorded sources and confidence, and processing time
  0, and the service is left as it was. The lookup compares the stripped, lower-cased
  query with the stripped, lower-cased question of each entry, the most recent entry
  first: the latest matching entry answers, and without a matching entry there is no
  cached answer.
\<close>

theorem exact_match_cache:
  "(is_initialized s \<and> ask_question e s request = Returns (r, s') \<and>
    conversation_history s' \<noteq> conversation_history s \<and>
    py_lower e' = py_lower e \<and>
    py_lower e (strip (question request')) = py_lower e (strip (question request)) \<longrightarrow>
      ask_question e' s' request' =
        Returns (\<lparr> answer = answer r,
                   sources = map source_of_stored (map stored_of_source (sources r)),
                   confidence_score = confidence_score r,
                   processing_time = 0,
                   timestamp = now e' \<rparr>, s')) \<and>
   (conversation_history s0 = older @ entry # newer \<and>
    py_lower e (strip (e_question entry)) = py_lower e (strip q) \<and>
    (\<forall>x \<in> set newer. py_lower e (strip (e_question x)) \<noteq> py_lower e (strip q)) \<longrightarrow>
      check_history_cache e s0 q = Some (cached_response e entry)) \<and>
   ((\<forall>x \<in> set (conversation_history s0).
        py_lower e (strip (e_question x)) \<noteq> py_lower e (strip q)) \<longrightarrow>
      check_history_cache e s0 q = None)"
proof (intro conjI impI)
  assume a: "is_initialized s \<and> ask_question e s request = Returns (r, s') \<and>
    conversation_history s' \<noteq> conversation_history s \<and>
    py_lower e' = py_lower e \<and>
    py_lower e (strip (question request')) = py_lower e (strip (question request))"
  then have init: "is_initialized s" and ask: "ask_question e s request = Returns (r, s')"
    and changed: "conversation_history s' \<noteq> conversation_history s"
    and lower: "py_lower e' = py_lower e"
    and same: "py_lower e (strip (question request')) = py_lower e (strip (question request))"
    by simp_all
  have ng: "handle_greetings e (question request) = None"
  proof (cases "handle_greetings e (question request)")
    case (Some g)
    with init ask have "s' = s" by (simp add: ask_question_def)
    with changed show ?thesis by simp
  qed simp
  have nc: "check_history_cache e s (question request) = None"
  proof (cases "check_history_cache e s (question request)")
    case (Some c)
    with init ask ng have "s' = s" by (simp add: ask_question_def)
    with changed show ?thesis by simp
  qed simp
  from ask_question_paths [OF init ng nc ask] changed
  obtain s1 where s1: "s' = save_to_history e (question request) r s1" "is_initialized s1"
    by auto
  have init': "is_initialized s'"
    using s1 by (simp add: save_to_history_initialized)
  have ng': "handle_greetings e' (question request') = None"
    using ng lower same by (simp add: handle_greetings_None_iff)
  obtain older where h: "conversation_history s' =
      older @ history_entry_of e (question request) r # []"
    using save_to_history_last [of e "question request" r s1] s1(1) by auto
  have "check_history_cache e' s' (question request') =
      Some (cached_response e' (history_entry_of e (question request) r))"
    using h lower same
    by (intro check_history_cache_freshest [where older = older and newer = "[]"])
       (simp_all add: history_entry_of_def)
  then show "ask_question e' s' request' =
        Returns (\<lparr> answer = answer r,
                   sources = map source_of_stored (map stored_of_source (sources r)),
                   confidence_score = confidence_score r,
                   processing_time = 0,
                   timestamp = now e' \<rparr>, s')"
    using init' ng' by (simp add: ask_question_def cached_response_of_entry)
next
  assume "conversation_history s0 = older @ entry # newer \<and>
    py_lower e (strip (e_question entry)) = py_lower e (strip q) \<and>
    (\<forall>x \<in> set newer. py_lower e (strip (e_question x)) \<noteq> py_lower e (strip q))"
  then show "check_history_cache e s0 q = Some (cached_response e entry)"
    using check_history_cache_freshest [of s0 older entry newer e q] by blast
next
  assume "\<forall>x \<in> set (conversation_history s0).
        py_lower e (strip (e_question x)) \<noteq> py_lower e (strip q)"
  then show "check_history_cache e s0 q = None"
    by (rule check_history_cache_none)
qed

theorem exact_match_cache_witness:
  "ask_question sample_env sample_service capital_request = Returns (first_response, after_first) \<and>
   ask_question sample_env after_first capital_request_upper =
     Returns (\<lparr> answer = sample_answer_text,
                sources = map source_of_stored (map stored_of_source sample_found),
                confidence_score = 1,
                processing_time = 0,
                timestamp = 7 \<rparr>, after_first)"
proof -
  have i: "is_initialized sample_service" "conversation_history sample_service = []"
    by (simp_all add: sample_service_def)
  have n: "now sample_env = 7" by (simp add: sample_env_def)
  show ?thesis
    using exact_match_cache [where s = sample_service and e = sample_env
        and request = capital_request and r = first_response and s' = after_first
        and e' = sample_env and request' = capital_request_upper]
    by (simp add: first_call i after_first_history sample_lower capital_normalized
          first_response_def n)
qed

text \<open>
  Not every answer is recorded: the "no information" answer returns before the history is
  written. A question it answers is answered again by the whole pipeline, with the
  processing time of that run and not 0.
\<close>

theorem repeated_question_counterexample:
  "ask_twice empty_index_env sample_service capital_request capital_request =
     Returns (\<lparr> answer = no_information_text,
                sources = [],
                confidence_score = 0,
                processing_time = 1 / 2,
                timestamp = 7 \<rparr>, sample_service)"
proof -
  have i: "is_initialized sample_service" "multi_agent_service sample_service = None"
    by (simp_all add: sample_service_def)
  have m: "run_multi_agent empty_index_env sample_service capital_request
      = (Returns None, sample_service)"
    by (simp add: run_multi_agent_def i)
  have d: "draft_answer empty_index_env sample_service capital_request None = Returns NoInformation"
    by (simp add: draft_answer_def classical_answer_def empty_search)
  have r: "no_information_response empty_index_env =
      \<lparr> answer = no_information_text, sources = [], confidence_score = 0,
        processing_time = 1 / 2, timestamp = 7 \<rparr>"
    by (simp add: no_information_response_def empty_index_env_def sample_env_def)
  have "ask_question empty_index_env sample_service capital_request =
      Returns (no_information_response empty_index_env, sample_service)"
    by (simp add: ask_question_def i capital_not_greeting sample_cache_empty m d)
  then show ?thesis by (simp add: ask_twice_def r)
qed

end
